theory Spec2Isabelle
  imports Complex_Main
begin

section \<open>Python strings\<close>

text \<open>
  Texts and byte strings are \<open>string\<close>s (lists of characters): a character of a text is a
  \<open>char\<close>, as the characters of the commands and of the replies of the pump are. A float
  of Python is a \<open>real\<close> number. What Python does beyond that, decoding bytes, rounding the
  result of a floating-point operation, printing and reading a float, is a parameter of
  the model (the record \<open>runtime\<close> below), so that nothing is assumed of it that is not
  stated.
\<close>

definition lstrip :: "string \<Rightarrow> string \<Rightarrow> string" where
  \<comment> \<open>\<open>s.lstrip(chars)\<close>\<close>
  "lstrip chars s = dropWhile (\<lambda>c. c \<in> set chars) s"

definition rstrip :: "string \<Rightarrow> string \<Rightarrow> string" where
  \<comment> \<open>\<open>s.rstrip(chars)\<close>\<close>
  "rstrip chars s = rev (dropWhile (\<lambda>c. c \<in> set chars) (rev s))"

definition clamp_index :: "nat \<Rightarrow> int \<Rightarrow> nat" where
  \<comment> \<open>a slice bound of Python: negative bounds count from the end, all bounds are clipped\<close>
  "clamp_index n i = (if i < 0 then nat (int n + i) else min (nat i) n)"

definition slice :: "'a list \<Rightarrow> int \<Rightarrow> int \<Rightarrow> 'a list" where
  \<comment> \<open>\<open>s[i:j]\<close>\<close>
  "slice s i j = drop (clamp_index (length s) i) (take (clamp_index (length s) j) s)"

definition slice_from :: "'a list \<Rightarrow> int \<Rightarrow> 'a list" where
  \<comment> \<open>\<open>s[i:]\<close>\<close>
  "slice_from s i = drop (clamp_index (length s) i) s"

definition slice_to :: "'a list \<Rightarrow> int \<Rightarrow> 'a list" where
  \<comment> \<open>\<open>s[:j]\<close>\<close>
  "slice_to s j = take (clamp_index (length s) j) s"

datatype pyval = PStr string | PNum real

text \<open>
  The exceptions the code can raise. A \<open>PumpError\<close> carries its message as the format string
  and the values that fill it; the built-in exceptions stand for the failed operation of
  Python (indexing or searching \<open>None\<close>, an index out of range, an attribute of \<open>None\<close>, a
  string that is not a number, bytes that are not a text).
\<close>

datatype pyerror =
    PumpError string "pyval list"
  | TypeError
  | IndexError
  | AttributeError
  | ValueError string
  | UnicodeDecodeError

definition getitem :: "'a list \<Rightarrow> int \<Rightarrow> pyerror + 'a" where
  \<comment> \<open>\<open>s[i]\<close>, which raises IndexError out of range\<close>
  "getitem s i =
     (let k = (if i < 0 then int (length s) + i else i)
      in if k < 0 then Inl IndexError
         else if int (length s) \<le> k then Inl IndexError
         else Inr (s ! nat k))"

fun find_from :: "nat \<Rightarrow> string \<Rightarrow> string \<Rightarrow> int" where
  "find_from i sub [] = (if sub = [] then int i else - 1)"
| "find_from i sub (c # cs) =
     (if take (length sub) (c # cs) = sub then int i else find_from (Suc i) sub cs)"

definition str_find :: "string \<Rightarrow> string \<Rightarrow> int" where
  \<comment> \<open>\<open>s.find(sub)\<close>: the lowest index of \<open>sub\<close> in \<open>s\<close>, or -1\<close>
  "str_find s sub = find_from 0 sub s"

definition contains :: "string \<Rightarrow> string \<Rightarrow> bool" where
  \<comment> \<open>\<open>sub in s\<close>\<close>
  "contains sub s = (0 \<le> str_find s sub)"

definition is_linebreak :: "char \<Rightarrow> bool" where
  \<comment> \<open>the ASCII line boundaries of \<open>str.splitlines\<close>\<close>
  "is_linebreak c =
     (c \<in> {CHR 0x0A, CHR 0x0D, CHR 0x0B, CHR 0x0C, CHR 0x1C, CHR 0x1D, CHR 0x1E})"

fun splitlines_from :: "string \<Rightarrow> string \<Rightarrow> string list" where
  "splitlines_from cur [] = (if cur = [] then [] else [cur])"
| "splitlines_from cur (c # cs) =
     (if is_linebreak c
      then cur # splitlines_from []
             (drop (if c = CHR 0x0D \<and> take 1 cs = [CHR 0x0A] then 1 else 0) cs)
      else splitlines_from (cur @ [c]) cs)"

definition splitlines :: "string \<Rightarrow> string list" where
  \<comment> \<open>\<open>s.splitlines()\<close>: the lines without their line breaks, CR LF being one break\<close>
  "splitlines s = splitlines_from [] s"

definition is_digit :: "char \<Rightarrow> bool" where
  "is_digit c = (c \<in> set ''0123456789'')"

text \<open>
  \<open>re.search(r"(\d+\.?\d*) ([mup][l])", s)\<close>: the leftmost match, as its two groups. At a
  given start the greedy reading is the only one that can succeed (after the digits and
  the optional point the pattern asks for a space, and giving back a digit or the point
  leaves a digit or the point where the space must be), so no backtracking is modelled.
\<close>

definition match_here :: "string \<Rightarrow> (string \<times> string) option" where
  "match_here s =
     (let ds = takeWhile is_digit s;
          r1 = dropWhile is_digit s;
          dot = (if take 1 r1 = ''.'' then ''.'' else []);
          r2 = drop (length dot) r1;
          fs = takeWhile is_digit r2;
          r3 = dropWhile is_digit r2
      in if ds = [] then None
         else (case r3 of
                 sp # v # l # _ \<Rightarrow>
                   if sp = CHR '' '' \<and> v \<in> set ''mup'' \<and> l = CHR ''l''
                   then Some (ds @ dot @ fs, [v, l])
                   else None
               | _ \<Rightarrow> None))"

fun re_search :: "string \<Rightarrow> (string \<times> string) option" where
  "re_search [] = None"
| "re_search (c # cs) =
     (case match_here (c # cs) of Some m \<Rightarrow> Some m | None \<Rightarrow> re_search cs)"

subsection \<open>Numbers as text\<close>

definition digit_char :: "nat \<Rightarrow> char" where
  "digit_char n = ''0123456789'' ! (n mod 10)"

fun str_nat :: "nat \<Rightarrow> string" where
  "str_nat n = (if n < 10 then [digit_char n] else str_nat (n div 10) @ [digit_char n])"

definition round_half_even :: "real \<Rightarrow> int" where
  \<comment> \<open>the nearest integer, a tie going to the even one\<close>
  "round_half_even x =
     (let f = \<lfloor>x\<rfloor>; r = x - of_int f
      in if r < 1 / 2 then f
         else if 1 / 2 < r then f + 1
         else if even f then f else f + 1)"

definition fmt_2_2f :: "real \<Rightarrow> string" where
  \<comment> \<open>\<open>"%2.2f" % x\<close>: two decimals, correctly rounded; the width 2 never pads\<close>
  "fmt_2_2f x =
     (let q = nat (round_half_even (\<bar>x\<bar> * 100))
      in (if x < 0 then ''-'' else [])
         @ str_nat (q div 100) @ ''.'' @ [digit_char (q div 10), digit_char q])"

text \<open>
  The parameters of the model, which stand for Python itself:
  \<^item> \<open>str_float\<close> is \<open>str(x)\<close> of a float, its shortest representation that reads back;
  \<^item> \<open>float_str\<close> is \<open>float(s)\<close>, \<open>None\<close> where it raises ValueError;
  \<^item> \<open>decode\<close> is \<open>bytes.decode()\<close>, \<open>None\<close> where it raises UnicodeDecodeError;
  \<^item> \<open>fmul\<close> and \<open>fdiv\<close> are the product \<open>x * y\<close> and the quotient \<open>x / y\<close> of floats, each
    rounded as the machine rounds it.
\<close>

record runtime =
  str_float :: "real \<Rightarrow> string"
  float_str :: "string \<Rightarrow> real option"
  decode :: "string \<Rightarrow> string option"
  fmul :: "real \<Rightarrow> real \<Rightarrow> real"
  fdiv :: "real \<Rightarrow> real \<Rightarrow> real"

text \<open>
  An instance for evaluation: \<open>str_tenths\<close> is \<open>str\<close> on the floats whose representation has
  one decimal (\<open>12.5\<close>, \<open>5.0\<close>), \<open>float_decimal\<close> is \<open>float\<close> on the numerals made of digits
  and at most one point, and \<open>decode_ascii\<close> is \<open>bytes.decode()\<close> on the byte strings that are
  ASCII, which decode to themselves, and on those that are not UTF-8, such as the single
  byte FF, which it refuses; it refuses the other bytes above 7F too, whose characters a
  \<open>char\<close> does not hold. The product and the quotient of the instance are the exact ones:
  they are those of the machine wherever the exact result is a float.
\<close>

definition decode_ascii :: "string \<Rightarrow> string option" where
  "decode_ascii bs = (if list_all (\<lambda>b. (of_char b :: nat) < 128) bs then Some bs else None)"

definition str_tenths :: "real \<Rightarrow> string" where
  "str_tenths x =
     (let q = nat \<lfloor>\<bar>x\<bar> * 10\<rfloor>
      in (if x < 0 then ''-'' else []) @ str_nat (q div 10) @ ''.'' @ [digit_char q])"

definition digit_val :: "char \<Rightarrow> nat" where
  "digit_val c = nat (str_find ''0123456789'' [c])"

definition nat_of_digits :: "string \<Rightarrow> nat" where
  "nat_of_digits ds = foldl (\<lambda>n c. 10 * n + digit_val c) 0 ds"

definition float_decimal :: "string \<Rightarrow> real option" where
  "float_decimal s =
     (let ip = takeWhile is_digit s;
          r = dropWhile is_digit s;
          fp = drop 1 r
      in if r = [] then (if ip = [] then None else Some (real (nat_of_digits ip)))
         else if take 1 r = ''.'' \<and> list_all is_digit fp \<and> \<not> (ip = [] \<and> fp = [])
         then Some (real (nat_of_digits (ip @ fp)) / 10 ^ length fp)
         else None)"

definition decimal_runtime :: runtime where
  "decimal_runtime =
     \<lparr>str_float = str_tenths, float_str = float_decimal, decode = decode_ascii,
      fmul = (\<lambda>x y. x * y), fdiv = (\<lambda>x y. x / y)\<rparr>"

text \<open>
  A second instance holds the operations of double-precision arithmetic at the operands
  of one conversion, of 0.3 from \<open>nl/sec\<close> to \<open>nl/min\<close>. The float \<open>0.3\<close> is
  \<open>5404319552844595 / 2^54\<close>; the quotients \<open>1/60\<close>, \<open>1/1000\<close> and \<open>1/1e6\<close> are the floats
  \<open>4803839602528529 / 2^58\<close>, \<open>1152921504606847 / 2^60\<close> and \<open>4722366482869645 / 2^72\<close>; the
  product of \<open>0.3\<close> and 60 is rounded to 18, that of 18 and \<open>0.001\<close> to
  \<open>1297036692682703 / 2^56\<close> (printed \<open>0.018000000000000002\<close>) and that of the latter and 1000
  to \<open>18 + 1 / 2^48\<close> (printed \<open>18.000000000000004\<close>). Elsewhere the instance is as
  \<open>decimal_runtime\<close>.
\<close>

definition double_example :: runtime where
  "double_example =
     decimal_runtime
       \<lparr>fmul :=
          (\<lambda>x y. if x = 5404319552844595 / 2 ^ 54 \<and> y = 60 then 18
                 else if x = 18 \<and> y = 1152921504606847 / 2 ^ 60
                 then 1297036692682703 / 2 ^ 56
                 else if x = 1297036692682703 / 2 ^ 56 \<and> y = 1000 then 18 + 1 / 2 ^ 48
                 else x * y),
        fdiv :=
          (\<lambda>x y. if x = 1 \<and> y = 60 then 4803839602528529 / 2 ^ 58
                 else if x = 1 \<and> y = 1000 then 1152921504606847 / 2 ^ 60
                 else if x = 1 \<and> y = 1000000 then 4722366482869645 / 2 ^ 72
                 else x / y)\<rparr>"

section \<open>Response normalizer and unit conversion\<close>

definition remove_crud :: "string \<Rightarrow> string" where
  "remove_crud string =
     (let string1 = (if CHR ''.'' \<in> set string then rstrip ''0'' string else string);
          string2 = lstrip ''0 '' string1
      in rstrip '' .'' string2)"

text \<open>
  The four factors of \<open>convert_units\<close>, one definition for each variable of the source, and
  the product it returns, taken from left to right. The integer factors 1, 60 and 1000 and
  the literal \<open>1e6\<close> are exact floats; \<open>1/60\<close>, \<open>1/1000\<close> and \<open>1/1e6\<close> are quotients of floats.
\<close>

definition time_factor_from :: "runtime \<Rightarrow> string \<Rightarrow> real" where
  "time_factor_from rt fromUnit =
     (if slice_from fromUnit (- 3) = ''sec'' then 60
      else if fromUnit = ''hor'' then fdiv rt 1 60
      else 1)"

definition time_factor_to :: "runtime \<Rightarrow> string \<Rightarrow> real" where
  "time_factor_to rt toUnit =
     (if slice_from toUnit (- 3) = ''sec'' then fdiv rt 1 60
      else if slice_from toUnit (- 3) = ''hor'' then 60
      else 1)"

definition vol_factor_from :: "runtime \<Rightarrow> string \<Rightarrow> real" where
  "vol_factor_from rt fromUnit =
     (if slice_to fromUnit 2 = ''ml'' then 1000
      else if slice_to fromUnit 2 = ''nl'' then fdiv rt 1 1000
      else if slice_to fromUnit 2 = ''pl'' then fdiv rt 1 1000000
      else 1)"

definition vol_factor_to :: "runtime \<Rightarrow> string \<Rightarrow> real" where
  "vol_factor_to rt toUnit =
     (if slice_to toUnit 2 = ''ml'' then fdiv rt 1 1000
      else if slice_to toUnit 2 = ''nl'' then 1000
      else if slice_to toUnit 2 = ''pl'' then 1000000
      else 1)"

definition convert_units :: "runtime \<Rightarrow> real \<Rightarrow> string \<Rightarrow> string \<Rightarrow> real" where
  "convert_units rt val fromUnit toUnit =
     fmul rt
       (fmul rt
          (fmul rt (fmul rt val (time_factor_from rt fromUnit)) (time_factor_to rt toUnit))
          (vol_factor_from rt fromUnit))
       (vol_factor_to rt toUnit)"

subsection \<open>The conversion as the specification words it\<close>

text \<open>
  The specification describes the conversion by two tables, one factor per volume prefix
  relative to a microliter and one per time suffix relative to a minute, and the formula
  \<open>value * (from_vol / to_vol) * (from_time / to_time)\<close>. These definitions follow those words,
  to be compared with \<open>convert_units\<close>.
\<close>

definition spec_vol_factor :: "string \<Rightarrow> real" where
  "spec_vol_factor u =
     (if slice_to u 2 = ''ml'' then 1000
      else if slice_to u 2 = ''ul'' then 1
      else if slice_to u 2 = ''nl'' then 1 / 1000
      else if slice_to u 2 = ''pl'' then 1 / 1000000
      else 1)"

definition spec_time_factor :: "string \<Rightarrow> real" where
  "spec_time_factor u =
     (if slice_from u (- 3) = ''sec'' then 1 / 60
      else if slice_from u (- 3) = ''min'' then 1
      else if slice_from u (- 3) = ''hor'' then 60
      else 1)"

definition spec_convert :: "real \<Rightarrow> string \<Rightarrow> string \<Rightarrow> real" where
  "spec_convert val fromUnit toUnit =
     val * (spec_vol_factor fromUnit / spec_vol_factor toUnit)
         * (spec_time_factor fromUnit / spec_time_factor toUnit)"

subsection \<open>Rounding\<close>

text \<open>
  \<open>rounded e x r\<close>: the float \<open>r\<close> is the number \<open>x\<close> up to the relative error \<open>e\<close>. The result
  of an operation on double-precision floats is the exact result rounded with a relative
  error of at most 2 to the power -53, as long as it neither overflows nor underflows (the
  infinities and NaN are no \<open>real\<close> numbers: an operation that overflows is not rounded in
  this sense). \<open>divisions_rounded\<close> says so of the three quotients \<open>convert_units\<close> may take,
  and \<open>products_rounded\<close> of the four products it takes at the given arguments.
\<close>

definition rounded :: "real \<Rightarrow> real \<Rightarrow> real \<Rightarrow> bool" where
  "rounded e x r = (\<bar>r - x\<bar> \<le> e * \<bar>x\<bar>)"

definition divisions_rounded :: "real \<Rightarrow> runtime \<Rightarrow> bool" where
  "divisions_rounded e rt =
     (rounded e (1 / 60) (fdiv rt 1 60)
      \<and> rounded e (1 / 1000) (fdiv rt 1 1000)
      \<and> rounded e (1 / 1000000) (fdiv rt 1 1000000))"

definition products_rounded :: "real \<Rightarrow> runtime \<Rightarrow> real \<Rightarrow> string \<Rightarrow> string \<Rightarrow> bool" where
  "products_rounded e rt val fromUnit toUnit =
     (let p1 = fmul rt val (time_factor_from rt fromUnit);
          p2 = fmul rt p1 (time_factor_to rt toUnit);
          p3 = fmul rt p2 (vol_factor_from rt fromUnit)
      in rounded e (val * time_factor_from rt fromUnit) p1
         \<and> rounded e (p1 * time_factor_to rt toUnit) p2
         \<and> rounded e (p2 * vol_factor_from rt fromUnit) p3
         \<and> rounded e (p3 * vol_factor_to rt toUnit) (fmul rt p3 (vol_factor_to rt toUnit)))"

definition convert_str_units :: "string \<Rightarrow> pyerror + string" where
  "convert_str_units abbr =
     (case getitem abbr 0 of
        Inl e \<Rightarrow> Inl e
      | Inr a0 \<Rightarrow>
          (let first_part = [a0] @ ''l''
           in case getitem abbr 2 of
                Inl e \<Rightarrow> Inl e
              | Inr a2 \<Rightarrow>
                  if a2 = CHR ''s'' then Inr (first_part @ ''/'' @ ''sec'')
                  else if a2 = CHR ''m'' then Inr (first_part @ ''/'' @ ''min'')
                  else if a2 = CHR ''h'' then Inr (first_part @ ''/'' @ ''hor'')
                  else Inl (ValueError ''Unknown unit'')))"

section \<open>The pump on its chain\<close>

text \<open>
  The serial connection is the external collaborator. What it has been given to send is the
  list \<open>written\<close> of frames. What it receives is the list \<open>incoming\<close> of bursts: a call of
  \<open>serialcon.read(n)\<close> returns up to \<open>n\<close> bytes of the first burst, what is left of the burst
  stays for the next call, an empty burst is a call that times out with nothing, and once
  the list is empty every call times out with nothing.
\<close>

record serial =
  written :: "string list"
  incoming :: "string list"

definition serial_read :: "nat \<Rightarrow> serial \<Rightarrow> string \<times> serial" where
  "serial_read n s =
     (case incoming s of
        [] \<Rightarrow> ([], s)
      | c # cs \<Rightarrow>
          (take n c, s\<lparr>incoming := (if length c \<le> n then cs else drop n c # cs)\<rparr>))"

datatype level = INFO | ERROR

text \<open>
  The fields of a \<open>Pump\<close> object, with what the process shows of its work: the records of
  \<open>logging\<close>, the lines of \<open>print\<close>, and the targets of the threads that have been started.
  \<open>syringevolume\<close> is an attribute only once it has been assigned: \<open>None\<close> before.
\<close>

record pump =
  name :: string
  serialcon :: serial
  address :: string
  diameter :: "real option"
  flowrate :: "real option"
  targetvolume :: "real option"
  syringevolume :: "real option"
  state :: "string option"
  logged :: "(level \<times> string \<times> pyval list) list"
  printed :: "string list"
  threads :: "string list"

definition logging :: "level \<Rightarrow> string \<Rightarrow> pyval list \<Rightarrow> pump \<Rightarrow> pump" where
  "logging l fmt args p = p\<lparr>logged := logged p @ [(l, fmt, args)]\<rparr>"

definition py_print :: "string \<Rightarrow> pump \<Rightarrow> pump" where
  "py_print line p = p\<lparr>printed := printed p @ [line]\<rparr>"

definition "write" :: "string \<Rightarrow> pump \<Rightarrow> pump" where
  "write command p =
     p\<lparr>serialcon := (serialcon p)
          \<lparr>written := written (serialcon p) @ [address p @ command @ [CHR 0x0D]]\<rparr>\<rparr>"

text \<open>
  \<open>read\<close> returns \<open>None\<close> of Python when no byte has come, raises when the bytes do not decode,
  and returns the decoded text without its line feeds otherwise. The bytes it has taken
  from the connection are gone in each case.
\<close>

definition read :: "runtime \<Rightarrow> nat \<Rightarrow> pump \<Rightarrow> (pyerror + string option) \<times> pump" where
  "read rt bytes p =
     (let (response, s) = serial_read bytes (serialcon p);
          p1 = p\<lparr>serialcon := s\<rparr>
      in if length response = 0 then (Inr None, p1)
         else (case decode rt response of
                 None \<Rightarrow> (Inl UnicodeDecodeError, p1)
               | Some text \<Rightarrow> (Inr (Some (filter (\<lambda>c. c \<noteq> CHR 0x0A) text)), p1)))"

definition is_status :: "char \<Rightarrow> bool" where
  \<comment> \<open>\<open>c == ':' or c == '<' or c == '>'\<close>\<close>
  "is_status c = (c = CHR '':'' \<or> c = CHR ''<'' \<or> c = CHR ''>'')"

definition setdiameter ::
  "runtime \<Rightarrow> real \<Rightarrow> pump \<Rightarrow> (pyerror + unit) \<times> pump" where
  "setdiameter rt diameter_arg p =
     (if state p = Some ''idle'' then
        if diameter_arg > 35 \<or> diameter_arg < 0.1 then
          (Inl (PumpError ''%s: diameter %s mm is out of range''
                  [PStr (name p), PNum diameter_arg]), p)
        else
          (let str_diameter = fmt_2_2f diameter_arg;
               p1 = write (''diameter '' @ str_diameter) p;
               (r1, p2) = read rt 80 p1
           in case r1 of
                Inl e \<Rightarrow> (Inl e, p2)
              | Inr None \<Rightarrow> (Inl AttributeError, p2)
              | Inr (Some resp) \<Rightarrow>
                  (case getitem (splitlines resp) (- 1) of
                     Inl e \<Rightarrow> (Inl e, p2)
                   | Inr last_line \<Rightarrow>
                       (case getitem last_line 2 of
                          Inl e \<Rightarrow> (Inl e, p2)
                        | Inr c \<Rightarrow>
                            if is_status c then
                              (let p3 = write ''diameter'' p2;
                                   (r2, p4) = read rt 45 p3
                               in case r2 of
                                    Inl e \<Rightarrow> (Inl e, p4)
                                  | Inr None \<Rightarrow> (Inl TypeError, p4)
                                  | Inr (Some resp2) \<Rightarrow>
                                      (let returned_diameter = remove_crud (slice resp2 3 9)
                                       in case float_str rt returned_diameter of
                                            None \<Rightarrow>
                                              (Inl (ValueError ''could not convert string to float''), p4)
                                          | Some f \<Rightarrow>
                                              if f \<noteq> diameter_arg then
                                                (Inr (), logging ERROR
                                                   ''%s: set diameter (%s mm) does not match diameter returned by pump (%s mm)''
                                                   [PStr (name p), PNum diameter_arg, PStr returned_diameter] p4)
                                              else
                                                (Inr (), logging INFO ''%s: diameter set to %s mm''
                                                   [PStr (name p), PNum f] (p4\<lparr>diameter := Some f\<rparr>))))
                            else
                              (Inl (PumpError ''%s: unknown response to setdiameter''
                                      [PStr (name p)]), p2))))
      else (Inr (), py_print (''Please wait until pump is idle.'' @ [CHR 0x0A]) p))"

definition setwithdrawrate ::
  "runtime \<Rightarrow> real \<Rightarrow> string \<Rightarrow> pump \<Rightarrow> (pyerror + unit) \<times> pump" where
  "setwithdrawrate rt flowrate_arg unit p =
     (if state p = Some ''idle'' then
        (let p1 = write (''wrate '' @ str_float rt flowrate_arg @ '' '' @ unit) p;
             (r1, p2) = read rt 7 p1
         in case r1 of
              Inl e \<Rightarrow> (Inl e, p2)
            | Inr None \<Rightarrow> (Inl TypeError, p2)
            | Inr (Some resp) \<Rightarrow>
                (case getitem resp 2 of
                   Inl e \<Rightarrow> (Inl e, p2)
                 | Inr c \<Rightarrow>
                     if is_status c then
                       (let p3 = write ''wrate'' p2;
                            (r2, p4) = read rt 150 p3
                        in case r2 of
                             Inl e \<Rightarrow> (Inl e, p4)
                           | Inr None \<Rightarrow> (Inl AttributeError, p4)
                           | Inr (Some resp2) \<Rightarrow>
                               (case getitem (splitlines resp2) 0 of
                                  Inl e \<Rightarrow> (Inl e, p4)
                                | Inr line \<Rightarrow>
                                    if contains ''Argument error'' line then
                                      (Inl (PumpError ''%s: flow rate (%s %s) is out of range''
                                              [PStr (name p), PNum flowrate_arg, PStr unit]), p4)
                                    else
                                      (case getitem (str_float rt flowrate_arg) 0 of
                                         Inl e \<Rightarrow> (Inl e, p4)
                                       | Inr ch \<Rightarrow>
                                           (let idx1 = str_find line [ch];
                                                idx2 = str_find line ''l/'';
                                                returned_text = remove_crud (slice line idx1 (idx2 - 1));
                                                returned_unit = slice line (idx2 - 1) (idx2 + 5)
                                            in case float_str rt returned_text of
                                                 None \<Rightarrow>
                                                   (Inl (ValueError ''could not convert string to float''), p4)
                                               | Some f \<Rightarrow>
                                                   (case convert_str_units unit of
                                                      Inl e \<Rightarrow> (Inl e, p4)
                                                    | Inr to_unit \<Rightarrow>
                                                        (let returned_flowrate = convert_units rt f returned_unit to_unit
                                                         in if returned_flowrate \<noteq> flowrate_arg then
                                                              (Inr (), logging ERROR
                                                                 ''%s: set flowrate (%s %s) does not matchflowrate returned by pump (%s %s)''
                                                                 [PStr (name p), PNum flowrate_arg, PStr unit,
                                                                  PNum returned_flowrate, PStr unit] p4)
                                                            else
                                                              (Inr (), logging INFO ''%s: flow rate set to %s uL/min''
                                                                 [PStr (name p), PNum returned_flowrate]
                                                                 (p4\<lparr>flowrate := Some returned_flowrate\<rparr>))))))))
                     else (Inl (PumpError ''%s: unknown response'' [PStr (name p)]), p2)))
      else (Inr (), py_print (''Please wait until pump is idle.'' @ [CHR 0x0A]) p))"

definition setinfusionrate ::
  "runtime \<Rightarrow> real \<Rightarrow> string \<Rightarrow> pump \<Rightarrow> (pyerror + unit) \<times> pump" where
  "setinfusionrate rt flowrate_arg unit p =
     (if state p = Some ''idle'' then
        (let p1 = write (''irate '' @ str_float rt flowrate_arg @ '' '' @ unit) p;
             (r1, p2) = read rt 17 p1
         in case r1 of
              Inl e \<Rightarrow> (Inl e, p2)
            | Inr None \<Rightarrow> (Inl TypeError, p2)
            | Inr (Some resp) \<Rightarrow>
                if contains '':'' resp \<or> contains ''<'' resp \<or> contains ''>'' resp then
                  (let p3 = write ''irate'' p2;
                       (r2, p4) = read rt 150 p3
                   in case r2 of
                        Inl e \<Rightarrow> (Inl e, p4)
                      | Inr None \<Rightarrow> (Inl TypeError, p4)
                      | Inr (Some resp2) \<Rightarrow>
                          if contains ''error'' resp2 then
                            (Inl (PumpError ''%s: flow rate (%s %sl) is out of range''
                                    [PStr (name p), PNum flowrate_arg, PStr unit]), p4)
                          else
                            (case re_search resp2 of
                               None \<Rightarrow>
                                 (Inl (PumpError ''Syringe volume could not be found'' []), p4)
                             | Some (returned_text, returned_unit) \<Rightarrow>
                                 (case float_str rt returned_text of
                                    None \<Rightarrow>
                                      (Inl (ValueError ''could not convert string to float''), p4)
                                  | Some f \<Rightarrow>
                                      (case convert_str_units unit of
                                         Inl e \<Rightarrow> (Inl e, p4)
                                       | Inr to_unit \<Rightarrow>
                                           (let returned_flowrate = convert_units rt f returned_unit to_unit
                                            in if returned_flowrate \<noteq> flowrate_arg then
                                                 (Inr (), logging ERROR
                                                    ''%s: set flowrate (%s %s) does not matchflowrate returned by pump (%s %s)''
                                                    [PStr (name p), PNum flowrate_arg, PStr unit,
                                                     PNum returned_flowrate, PStr unit] p4)
                                               else
                                                 (Inr (), logging INFO ''%s: flow rate set to %s uL/min''
                                                    [PStr (name p), PNum returned_flowrate]
                                                    (p4\<lparr>flowrate := Some returned_flowrate\<rparr>)))))))
                else (Inl (PumpError ''%s: unknown response'' [PStr (name p)]), p2))
      else (Inr (), py_print (''Please wait until pump is idle.'' @ [CHR 0x0A]) p))"

text \<open>
  \<open>infuse\<close> and \<open>withdraw\<close> end with \<open>threading.Thread(target=self.waituntilfinished)\<close>: the
  thread object is made and dropped, its \<open>start()\<close> is not called, so no thread is added to
  \<open>threads\<close> and \<open>waituntilfinished\<close> does not run.
\<close>

definition infuse :: "runtime \<Rightarrow> pump \<Rightarrow> (pyerror + unit) \<times> pump" where
  "infuse rt p =
     (if state p = Some ''idle'' then
        (let p1 = write ''irun'' p;
             (r, p2) = read rt 55 p1
         in case r of
              Inl e \<Rightarrow> (Inl e, p2)
            | Inr None \<Rightarrow> (Inl TypeError, p2)
            | Inr (Some resp) \<Rightarrow>
                if contains ''Command error'' resp then
                  (case getitem (splitlines resp) 1 of
                     Inl e \<Rightarrow> (Inl e, p2)
                   | Inr error_msg \<Rightarrow>
                       (Inl (PumpError ''%s: %s'' [PStr (name p), PStr error_msg]), p2))
                else (Inr (), p2\<lparr>state := Some ''infusing''\<rparr>))
      else (Inr (), py_print
              (''Please wait until the pump is idle before infusing.'' @ [CHR 0x0A]) p))"

definition withdraw :: "runtime \<Rightarrow> pump \<Rightarrow> (pyerror + unit) \<times> pump" where
  "withdraw rt p =
     (if state p = Some ''idle'' then
        (let p1 = write ''wrun'' p;
             (r, p2) = read rt 85 p1
         in case r of
              Inl e \<Rightarrow> (Inl e, p2)
            | Inr None \<Rightarrow> (Inl TypeError, p2)
            | Inr (Some resp) \<Rightarrow>
                if contains ''Command error'' resp then
                  (case getitem (splitlines resp) 1 of
                     Inl e \<Rightarrow> (Inl e, p2)
                   | Inr error_msg \<Rightarrow>
                       (Inl (PumpError ''%s: %s'' [PStr (name p), PStr error_msg]), p2))
                else (Inr (), p2\<lparr>state := Some ''withdrawing''\<rparr>))
      else (Inr (), py_print
              (''Please wait until the pump is idle before withdrawing.'' @ [CHR 0x0A]) p))"

text \<open>
  The loop of \<open>waituntilfinished\<close> reads until a reply holds \<open>T*\<close>. A read that yields nothing
  returns \<open>None\<close>, the search in it raises, and the bare \<open>except\<close> swallows that, as it swallows
  the error of a read that does not decode: the loop goes on.
  It may never end, so the function is partial: \<open>None\<close> is the run that does not return. A run
  that returns gives the returned value (\<open>finished\<close>, or Python's \<open>None\<close> when the loop is
  left by its condition) and the pump.
\<close>

partial_function (option) waituntilfinished ::
  "runtime \<Rightarrow> pump \<Rightarrow> (string option \<times> pump) option" where
  "waituntilfinished rt p =
     (if state p = Some ''infusing'' \<or> state p = Some ''withdrawing'' then
        (case read rt 5 p of
           (Inl e, p1) \<Rightarrow> waituntilfinished rt p1
         | (Inr None, p1) \<Rightarrow> waituntilfinished rt p1
         | (Inr (Some resp), p1) \<Rightarrow>
             if contains ''T*'' resp
             then Some (Some ''finished'', p1\<lparr>state := Some ''idle''\<rparr>)
             else waituntilfinished rt p1)
      else Some (None, p))"

definition settargetvolume ::
  "runtime \<Rightarrow> real \<Rightarrow> string \<Rightarrow> pump \<Rightarrow> (pyerror + unit) \<times> pump" where
  "settargetvolume rt targetvolume_arg unit p =
     (if state p = Some ''idle'' then
        (let p1 = write (''tvolume '' @ str_float rt targetvolume_arg @ '' '' @ unit) p;
             (r1, p2) = read rt 7 p1
         in case r1 of
              Inl e \<Rightarrow> (Inl e, p2)
            | Inr resp \<Rightarrow>
            if True then
              (let p3 = write ''tvolume'' p2;
                   (r2, p4) = read rt 150 p3
               in case r2 of
                    Inl e \<Rightarrow> (Inl e, p4)
                  | Inr None \<Rightarrow> (Inl TypeError, p4)
                  | Inr (Some resp2) \<Rightarrow>
                      if contains ''Target volume not set'' resp2 then
                        (Inl (PumpError ''%s: Target volume (%s %s) could not be set''
                                [PStr (name p), PNum targetvolume_arg, PStr unit]), p4)
                      else
                        (case re_search resp2 of
                           None \<Rightarrow>
                             (Inl (PumpError ''Syringe volume could not be found'' []), p4)
                         | Some (returned_text, returned_unit) \<Rightarrow>
                             (case float_str rt returned_text of
                                None \<Rightarrow>
                                  (Inl (ValueError ''could not convert string to float''), p4)
                              | Some f \<Rightarrow>
                                  (case convert_str_units (unit @ ''/min'') of
                                     Inl e \<Rightarrow> (Inl e, p4)
                                   | Inr to_unit \<Rightarrow>
                                       (let returned_targetvolume =
                                              convert_units rt f (returned_unit @ ''/min'') to_unit
                                        in if returned_targetvolume \<noteq> targetvolume_arg then
                                             (Inr (), logging ERROR
                                                ''%s: set targetvolume (%s %s) does not matchtargetvolume returned by pump (%s %s)''
                                                [PStr (name p), PNum targetvolume_arg, PStr unit,
                                                 PNum returned_targetvolume, PStr unit] p4)
                                           else
                                             (Inr (), logging INFO ''%s: target volume set to %s %s''
                                                [PStr (name p), PNum returned_targetvolume,
                                                 PStr (slice_to to_unit 2)]
                                                (p4\<lparr>targetvolume := Some returned_targetvolume\<rparr>)))))))
            else (Inl (PumpError ''%s: unknown response'' [PStr (name p)]), p2))
      else (Inr (), py_print (''Please wait until pump is idle.'' @ [CHR 0x0A]) p))"

definition getsyringevolume ::
  "runtime \<Rightarrow> pump \<Rightarrow> (pyerror + string) \<times> pump" where
  "getsyringevolume rt p =
     (let p1 = write ''svolume'' p;
          (r, p2) = read rt 60 p1
      in case r of
           Inl e \<Rightarrow> (Inl e, p2)
         | Inr None \<Rightarrow> (Inl TypeError, p2)
         | Inr (Some resp) \<Rightarrow>
             (case re_search resp of
                None \<Rightarrow> (Inl (PumpError ''Syringe volume could not be found'' []), p2)
              | Some (returned_volume, returned_unit) \<Rightarrow>
                  (Inr (returned_volume @ '' '' @ returned_unit), p2)))"

definition setsyringevolume ::
  "runtime \<Rightarrow> real \<Rightarrow> string \<Rightarrow> pump \<Rightarrow> (pyerror + unit) \<times> pump" where
  "setsyringevolume rt vol unit p =
     (if state p = Some ''idle'' then
        (let p1 = write (''svolume '' @ str_float rt vol @ '' '' @ unit @ ''l'') p;
             (r1, p2) = read rt 10 p1
         in case r1 of
              Inl e \<Rightarrow> (Inl e, p2)
            | Inr None \<Rightarrow> (Inl TypeError, p2)
            | Inr (Some resp) \<Rightarrow>
                (case getitem resp (- 1) of
                   Inl e \<Rightarrow> (Inl e, p2)
                 | Inr c \<Rightarrow>
                     if is_status c then
                       (case getsyringevolume rt p2 of
                          (Inl e, p3) \<Rightarrow> (Inl e, p3)
                        | (Inr volume_str, p3) \<Rightarrow>
                            (let returned_text = slice_to volume_str (- 3);
                                 returned_unit = slice_from volume_str (- 2)
                             in case float_str rt returned_text of
                                  None \<Rightarrow>
                                    (Inl (ValueError ''could not convert string to float''), p3)
                                | Some f \<Rightarrow>
                                    (case convert_str_units (unit @ ''/min'') of
                                       Inl e \<Rightarrow> (Inl e, p3)
                                     | Inr to_unit \<Rightarrow>
                                         (let returned_volume =
                                                convert_units rt f (returned_unit @ ''/min'') to_unit
                                          in if returned_volume \<noteq> vol then
                                               (Inr (), logging ERROR
                                                  ''%s: set syringe volume (%s %s) does not matchsyringe volume returned by pump (%s %s)''
                                                  [PStr (name p), PNum vol, PStr unit,
                                                   PNum returned_volume, PStr unit] p3)
                                             else
                                               (Inr (), logging INFO ''%s: syringe volume set to %s %s''
                                                  [PStr (name p), PNum returned_volume,
                                                   PStr (slice_to to_unit 2)]
                                                  (p3\<lparr>syringevolume := Some returned_volume\<rparr>))))))
                     else (Inl (PumpError ''%s: unknown response'' [PStr (name p)]), p2)))
      else (Inr (), py_print (''Please wait until pump is idle.'' @ [CHR 0x0A]) p))"

subsection \<open>Pumps for evaluation\<close>

text \<open>
  A pump named \<open>Ultra\<close> at address 0 as the constructor leaves it when the probe has reported
  idle, on a connection that will receive the given bursts; and the same pump while it
  infuses.
\<close>

definition idle_pump :: "string list \<Rightarrow> pump" where
  "idle_pump bursts =
     \<lparr>name = ''Ultra'', serialcon = \<lparr>written = [], incoming = bursts\<rparr>, address = ''00'',
      diameter = None, flowrate = None, targetvolume = None, syringevolume = None,
      state = Some ''idle'', logged = [], printed = [], threads = []\<rparr>"

definition busy_pump :: pump where
  "busy_pump = (idle_pump [''T*''])\<lparr>state := Some ''infusing''\<rparr>"


section \<open>Unit conversion: results\<close>

text \<open>
  C1, as stated, fails: one microliter per second is converted to 60 microliters per
  minute, where the formula of the claim, with the time factors as \<open>from_time / to_time\<close>,
  gives one sixtieth. (The products taken here, of 1 with 60 and with 1, are exact in
  floating point.)
\<close>

theorem convert_units_spec_formula_counterexample:
  "convert_units decimal_runtime 1 ''ul/sec'' ''ul/min'' = 60
   \<and> spec_convert 1 ''ul/sec'' ''ul/min'' = 1 / 60
   \<and> convert_units decimal_runtime 1 ''ul/sec'' ''ul/min''
       \<noteq> spec_convert 1 ''ul/sec'' ''ul/min''"
  by (simp add: convert_units_def time_factor_from_def time_factor_to_def vol_factor_from_def
      vol_factor_to_def decimal_runtime_def spec_convert_def spec_vol_factor_def
      spec_time_factor_def slice_from_def slice_to_def clamp_index_def)

subsection \<open>Relative errors\<close>

lemma rounded_refl: "0 \<le> e \<Longrightarrow> rounded e x x"
  by (simp add: rounded_def)

lemma rounded_mult:
  assumes "0 \<le> a" and "0 \<le> b" and "rounded a x r" and "rounded b y s"
  shows "rounded ((1 + a) * (1 + b) - 1) (x * y) (r * s)"
proof -
  have rx: "\<bar>r - x\<bar> \<le> a * \<bar>x\<bar>" and sy: "\<bar>s - y\<bar> \<le> b * \<bar>y\<bar>"
    using assms by (simp_all add: rounded_def)
  have "\<bar>s\<bar> \<le> \<bar>y\<bar> + \<bar>s - y\<bar>" by linarith
  with sy have s_le: "\<bar>s\<bar> \<le> (1 + b) * \<bar>y\<bar>" by (simp add: algebra_simps)
  have "r * s - x * y = (r - x) * s + x * (s - y)" by (simp add: algebra_simps)
  then have "\<bar>r * s - x * y\<bar> \<le> \<bar>r - x\<bar> * \<bar>s\<bar> + \<bar>x\<bar> * \<bar>s - y\<bar>"
    by (metis abs_mult abs_triangle_ineq)
  also have "\<dots> \<le> (a * \<bar>x\<bar>) * ((1 + b) * \<bar>y\<bar>) + \<bar>x\<bar> * (b * \<bar>y\<bar>)"
    using assms(1,2) by (intro add_mono mult_mono rx s_le sy) simp_all
  also have "\<dots> = ((1 + a) * (1 + b) - 1) * \<bar>x * y\<bar>"
    by (simp add: abs_mult algebra_simps)
  finally show ?thesis by (simp add: rounded_def)
qed

lemma rounded_trans:
  assumes "0 \<le> a" and "0 \<le> b" and "rounded a x r" and "rounded b r s"
  shows "rounded ((1 + a) * (1 + b) - 1) x s"
proof -
  have rx: "\<bar>r - x\<bar> \<le> a * \<bar>x\<bar>" and sr: "\<bar>s - r\<bar> \<le> b * \<bar>r\<bar>"
    using assms by (simp_all add: rounded_def)
  have "\<bar>r\<bar> \<le> \<bar>x\<bar> + \<bar>r - x\<bar>" by linarith
  with rx have r_le: "\<bar>r\<bar> \<le> (1 + a) * \<bar>x\<bar>" by (simp add: algebra_simps)
  have "\<bar>s - x\<bar> \<le> \<bar>s - r\<bar> + \<bar>r - x\<bar>" by linarith
  also have "\<dots> \<le> b * ((1 + a) * \<bar>x\<bar>) + a * \<bar>x\<bar>"
    using assms(2) by (intro add_mono order_trans [OF sr] mult_left_mono r_le rx)
  also have "\<dots> = ((1 + a) * (1 + b) - 1) * \<bar>x\<bar>"
    by (simp add: algebra_simps)
  finally show ?thesis by (simp add: rounded_def)
qed

lemma rounded_step:
  assumes e: "0 \<le> e"
    and P: "rounded ((1 + e) ^ k - 1) X P"
    and c: "rounded e C c"
    and q: "rounded e (P * c) q"
  shows "rounded ((1 + e) ^ (k + 2) - 1) (X * C) q"
proof -
  have k: "0 \<le> (1 + e) ^ k - 1" using e by (simp add: one_le_power)
  have "rounded ((1 + ((1 + e) ^ k - 1)) * (1 + e) - 1) (X * C) (P * c)"
    by (rule rounded_mult [OF k e P c])
  then have m: "rounded ((1 + e) ^ (k + 1) - 1) (X * C) (P * c)" by (simp add: mult.commute)
  have k1: "0 \<le> (1 + e) ^ (k + 1) - 1" using e by (simp del: power_Suc add: one_le_power)
  have "rounded ((1 + ((1 + e) ^ (k + 1) - 1)) * (1 + e) - 1) (X * C) q"
    by (rule rounded_trans [OF k1 e m q])
  then show ?thesis by (simp add: mult.commute)
qed

lemma time_factor_from_rounded:
  assumes "0 \<le> e" and "divisions_rounded e rt"
    and "slice_from fromUnit (- 3) = ''hor'' \<longrightarrow> fromUnit = ''hor''"
  shows "rounded e (1 / spec_time_factor fromUnit) (time_factor_from rt fromUnit)"
  using assms
  by (auto simp: time_factor_from_def spec_time_factor_def divisions_rounded_def rounded_refl
      slice_from_def clamp_index_def)

lemma time_factor_to_rounded:
  assumes "0 \<le> e" and "divisions_rounded e rt"
  shows "rounded e (spec_time_factor toUnit) (time_factor_to rt toUnit)"
  using assms
  by (auto simp: time_factor_to_def spec_time_factor_def divisions_rounded_def rounded_refl)

lemma vol_factor_from_rounded:
  assumes "0 \<le> e" and "divisions_rounded e rt"
  shows "rounded e (spec_vol_factor fromUnit) (vol_factor_from rt fromUnit)"
  using assms
  by (auto simp: vol_factor_from_def spec_vol_factor_def divisions_rounded_def rounded_refl)

lemma vol_factor_to_rounded:
  assumes "0 \<le> e" and "divisions_rounded e rt"
  shows "rounded e (1 / spec_vol_factor toUnit) (vol_factor_to rt toUnit)"
  using assms
  by (auto simp: vol_factor_to_def spec_vol_factor_def divisions_rounded_def rounded_refl)

text \<open>
  C1, amended: the volume factors enter as \<open>from_vol / to_vol\<close> and the time factors the
  other way round, as \<open>to_time / from_time\<close> (a rate has the time in its denominator), with
  the tables of the claim and the factor 1 for anything unrecognized; and the result is
  that value up to the rounding of floating point. For every value and every pair of unit
  strings whose source unit does not end in \<open>hor\<close> (or is the bare string \<open>hor\<close>): when the
  quotients \<open>1/60\<close>, \<open>1/1000\<close>, \<open>1/1e6\<close> and the four products that \<open>convert_units\<close> takes are
  each rounded with a relative error of at most \<open>e\<close>, the result is
  \<open>value * (from_vol / to_vol) * (to_time / from_time)\<close> up to the relative error
  \<open>(1 + e)^8 - 1\<close>.
\<close>

theorem convert_units_formula:
  assumes e: "0 \<le> e"
    and hor: "slice_from fromUnit (- 3) = ''hor'' \<longrightarrow> fromUnit = ''hor''"
    and d: "divisions_rounded e rt"
    and p: "products_rounded e rt val fromUnit toUnit"
  shows "rounded ((1 + e) ^ 8 - 1)
           (val * (spec_vol_factor fromUnit / spec_vol_factor toUnit)
                * (spec_time_factor toUnit / spec_time_factor fromUnit))
           (convert_units rt val fromUnit toUnit)"
proof -
  define p1 where "p1 = fmul rt val (time_factor_from rt fromUnit)"
  define p2 where "p2 = fmul rt p1 (time_factor_to rt toUnit)"
  define p3 where "p3 = fmul rt p2 (vol_factor_from rt fromUnit)"
  define p4 where "p4 = fmul rt p3 (vol_factor_to rt toUnit)"
  from p have q1: "rounded e (val * time_factor_from rt fromUnit) p1"
    and q2: "rounded e (p1 * time_factor_to rt toUnit) p2"
    and q3: "rounded e (p2 * vol_factor_from rt fromUnit) p3"
    and q4: "rounded e (p3 * vol_factor_to rt toUnit) p4"
    by (simp_all add: products_rounded_def Let_def p1_def p2_def p3_def p4_def)
  have s0: "rounded ((1 + e) ^ 0 - 1) val val" by (simp add: rounded_def)
  have s1: "rounded ((1 + e) ^ 2 - 1) (val * (1 / spec_time_factor fromUnit)) p1"
    using rounded_step [OF e s0 time_factor_from_rounded [OF e d hor] q1]
    by (simp add: eval_nat_numeral)
  have s2: "rounded ((1 + e) ^ 4 - 1)
      (val * (1 / spec_time_factor fromUnit) * spec_time_factor toUnit) p2"
    using rounded_step [OF e s1 time_factor_to_rounded [OF e d] q2]
    by (simp add: eval_nat_numeral)
  have s3: "rounded ((1 + e) ^ 6 - 1)
      (val * (1 / spec_time_factor fromUnit) * spec_time_factor toUnit
         * spec_vol_factor fromUnit) p3"
    using rounded_step [OF e s2 vol_factor_from_rounded [OF e d] q3]
    by (simp add: eval_nat_numeral)
  have s4: "rounded ((1 + e) ^ 8 - 1)
      (val * (1 / spec_time_factor fromUnit) * spec_time_factor toUnit
         * spec_vol_factor fromUnit * (1 / spec_vol_factor toUnit)) p4"
    using rounded_step [OF e s3 vol_factor_to_rounded [OF e d] q4]
    by (simp add: eval_nat_numeral)
  have "convert_units rt val fromUnit toUnit = p4"
    by (simp add: convert_units_def p1_def p2_def p3_def p4_def)
  moreover have "val * (1 / spec_time_factor fromUnit) * spec_time_factor toUnit
         * spec_vol_factor fromUnit * (1 / spec_vol_factor toUnit) =
       val * (spec_vol_factor fromUnit / spec_vol_factor toUnit)
           * (spec_time_factor toUnit / spec_time_factor fromUnit)"
    by (simp add: mult.commute mult.left_commute)
  ultimately show ?thesis using s4 by simp
qed

text \<open>
  At the value 3 from \<open>ml/sec\<close> to \<open>ul/hor\<close> the factors are 60, 60, 1000 and 1 and every
  product is a whole number, exact in floating point. At the float \<open>0.3\<close> from \<open>nl/sec\<close> to
  \<open>nl/min\<close> the operations of double precision are rounded within \<open>1 / 2^53\<close>; the result is
  \<open>18 + 1 / 2^48\<close>, not the exact \<open>60 * 0.3\<close>, and within the bound.
\<close>

theorem convert_units_formula_witness:
  "(0::real) \<le> 1 / 2 ^ 53
   \<and> slice_from ''ml/sec'' (- 3) = ''sec''
   \<and> divisions_rounded (1 / 2 ^ 53) decimal_runtime
   \<and> products_rounded (1 / 2 ^ 53) decimal_runtime 3 ''ml/sec'' ''ul/hor''
   \<and> rounded ((1 + 1 / 2 ^ 53) ^ 8 - 1) (3 * (1000 / 1) * (60 / (1 / 60)))
        (convert_units decimal_runtime 3 ''ml/sec'' ''ul/hor'')
   \<and> convert_units decimal_runtime 3 ''ml/sec'' ''ul/hor'' = 10800000
   \<and> slice_from ''nl/sec'' (- 3) = ''sec''
   \<and> divisions_rounded (1 / 2 ^ 53) double_example
   \<and> products_rounded (1 / 2 ^ 53) double_example (5404319552844595 / 2 ^ 54)
        ''nl/sec'' ''nl/min''
   \<and> rounded ((1 + 1 / 2 ^ 53) ^ 8 - 1)
        (5404319552844595 / 2 ^ 54 * ((1 / 1000) / (1 / 1000)) * (1 / (1 / 60)))
        (convert_units double_example (5404319552844595 / 2 ^ 54) ''nl/sec'' ''nl/min'')
   \<and> convert_units double_example (5404319552844595 / 2 ^ 54) ''nl/sec'' ''nl/min'' =
        18 + 1 / 2 ^ 48"
  using convert_units_formula [where e = "1 / 2 ^ 53" and rt = decimal_runtime and val = 3
      and fromUnit = "''ml/sec''" and toUnit = "''ul/hor''"]
    convert_units_formula [where e = "1 / 2 ^ 53" and rt = double_example
      and val = "5404319552844595 / 2 ^ 54" and fromUnit = "''nl/sec''"
      and toUnit = "''nl/min''"]
  by (simp add: divisions_rounded_def products_rounded_def rounded_def decimal_runtime_def
      double_example_def convert_units_def time_factor_from_def time_factor_to_def
      vol_factor_from_def vol_factor_to_def spec_vol_factor_def spec_time_factor_def
      slice_from_def slice_to_def clamp_index_def)

text \<open>
  C2: the round trip fails for a unit that ends in \<open>hor\<close>. From \<open>ul/hor\<close> to \<open>ul/min\<close> the
  value is left as it is (the source unit is compared with the bare string \<open>hor\<close>), and back
  from \<open>ul/min\<close> to \<open>ul/hor\<close> it is multiplied by 60. (The products taken, of 1 with 1 and
  with 60, are exact in floating point.)
\<close>

theorem convert_units_round_trip_hor:
  "convert_units decimal_runtime 1 ''ul/hor'' ''ul/min'' = 1
   \<and> convert_units decimal_runtime (convert_units decimal_runtime 1 ''ul/hor'' ''ul/min'')
        ''ul/min'' ''ul/hor'' = 60"
  by (simp add: convert_units_def time_factor_from_def time_factor_to_def vol_factor_from_def
      vol_factor_to_def decimal_runtime_def slice_from_def slice_to_def clamp_index_def)

section \<open>Response normalizer: results\<close>

text \<open>
  C3: of the three example equations only the last holds. A trailing space stops the
  removal of the trailing zeros, which comes first, and the leading zero of \<open>0.0\<close> is
  removed with the rest.
\<close>

theorem remove_crud_examples:
  "remove_crud ''00012.500 '' = ''12.500''
   \<and> remove_crud ''0.0'' = ''''
   \<and> remove_crud ''   7.00'' = ''7''"
  by (simp add: remove_crud_def lstrip_def rstrip_def)

section \<open>The pump: results\<close>

lemmas eval_defs = idle_pump_def decimal_runtime_def write_def read_def serial_read_def
  logging_def py_print_def is_status_def getitem_def splitlines_def is_linebreak_def
  str_find_def contains_def match_here_def is_digit_def digit_char_def
  round_half_even_def fmt_2_2f_def str_tenths_def digit_val_def nat_of_digits_def
  float_decimal_def remove_crud_def lstrip_def rstrip_def slice_def slice_from_def slice_to_def
  clamp_index_def convert_units_def time_factor_from_def time_factor_to_def
  vol_factor_from_def vol_factor_to_def convert_str_units_def decode_ascii_def



text \<open>
  C4: while the state of the pump is not idle, each of the five setters and \<open>infuse\<close> and
  \<open>withdraw\<close> returns normally and leaves the pump as it was, but for one printed line:
  nothing is written to the connection, and the state and the stored fields are unchanged.
\<close>

theorem busy_is_noop:
  assumes "state p \<noteq> Some ''idle''"
  shows "setdiameter rt d p =
           (Inr (), p\<lparr>printed := printed p @ [''Please wait until pump is idle.'' @ [CHR 0x0A]]\<rparr>)
       \<and> setinfusionrate rt f u p =
           (Inr (), p\<lparr>printed := printed p @ [''Please wait until pump is idle.'' @ [CHR 0x0A]]\<rparr>)
       \<and> setwithdrawrate rt f u p =
           (Inr (), p\<lparr>printed := printed p @ [''Please wait until pump is idle.'' @ [CHR 0x0A]]\<rparr>)
       \<and> settargetvolume rt v u p =
           (Inr (), p\<lparr>printed := printed p @ [''Please wait until pump is idle.'' @ [CHR 0x0A]]\<rparr>)
       \<and> setsyringevolume rt v u p =
           (Inr (), p\<lparr>printed := printed p @ [''Please wait until pump is idle.'' @ [CHR 0x0A]]\<rparr>)
       \<and> infuse rt p =
           (Inr (), p\<lparr>printed := printed p
              @ [''Please wait until the pump is idle before infusing.'' @ [CHR 0x0A]]\<rparr>)
       \<and> withdraw rt p =
           (Inr (), p\<lparr>printed := printed p
              @ [''Please wait until the pump is idle before withdrawing.'' @ [CHR 0x0A]]\<rparr>)"
  using assms
  by (simp add: setdiameter_def setinfusionrate_def setwithdrawrate_def settargetvolume_def
      setsyringevolume_def infuse_def withdraw_def py_print_def)

theorem busy_is_noop_witness:
  "state busy_pump = Some ''infusing''
   \<and> infuse decimal_runtime busy_pump =
       (Inr (), busy_pump\<lparr>printed :=
          [''Please wait until the pump is idle before infusing.'' @ [CHR 0x0A]]\<rparr>)
   \<and> setdiameter decimal_runtime 10 busy_pump =
       (Inr (), busy_pump\<lparr>printed := [''Please wait until pump is idle.'' @ [CHR 0x0A]]\<rparr>)
   \<and> written (serialcon (snd (infuse decimal_runtime busy_pump))) = []"
  using busy_is_noop [where p = busy_pump and rt = decimal_runtime and d = 10]
  by (simp add: busy_pump_def idle_pump_def)



text \<open>
  C6: on an idle pump, \<open>setdiameter\<close> with a diameter above 35 or below 0.1 raises a
  \<open>PumpError\<close> and the pump is as it was before the call: nothing has been written to the
  connection, and the stored diameter and the state are unchanged.
\<close>

theorem setdiameter_out_of_range:
  assumes "state p = Some ''idle''" and "diameter_arg > 35 \<or> diameter_arg < 0.1"
  shows "setdiameter rt diameter_arg p =
           (Inl (PumpError ''%s: diameter %s mm is out of range''
                   [PStr (name p), PNum diameter_arg]), p)"
  using assms by (simp add: setdiameter_def)

theorem setdiameter_out_of_range_witness:
  "state (idle_pump [''00:'']) = Some ''idle'' \<and> (40::real) > 35
   \<and> setdiameter decimal_runtime 40 (idle_pump [''00:'']) =
       (Inl (PumpError ''%s: diameter %s mm is out of range'' [PStr ''Ultra'', PNum 40]),
        idle_pump [''00:''])
   \<and> written (serialcon (snd (setdiameter decimal_runtime 40 (idle_pump [''00:''])))) = []"
  using setdiameter_out_of_range [where p = "idle_pump [''00:'']" and diameter_arg = 40
      and rt = decimal_runtime]
  by (simp add: idle_pump_def)

text \<open>
  C7: \<open>settargetvolume\<close> does not check the confirmation reply. On a reply without any status
  token it goes on, reads the target volume back and stores it, where \<open>setinfusionrate\<close>
  on the same reply raises the \<open>PumpError\<close> of an unknown response.
\<close>

theorem settargetvolume_skips_confirmation:
  "fst (settargetvolume decimal_runtime 5 ''u'' (idle_pump [''garbage'', ''5.0 ul''])) = Inr ()
   \<and> targetvolume (snd (settargetvolume decimal_runtime 5 ''u''
        (idle_pump [''garbage'', ''5.0 ul'']))) = Some 5
   \<and> fst (setinfusionrate decimal_runtime 5 ''u/m'' (idle_pump [''garbage'', ''5.0 ul''])) =
       Inl (PumpError ''%s: unknown response'' [PStr ''Ultra''])"
  by (simp add: settargetvolume_def setinfusionrate_def eval_defs)

text \<open>
  C8: on an idle pump whose reply to the run command is no command error, \<open>infuse\<close> sets the
  state to infusing and starts no thread. The completion marker \<open>T*\<close> that arrives later
  stays unread and the state stays infusing, although \<open>waituntilfinished\<close>, had it been run,
  would have read the marker and set the state back to idle.
\<close>

theorem infuse_starts_no_poller:
  "fst (infuse decimal_runtime (idle_pump [''00>'', ''T*''])) = Inr ()
   \<and> state (snd (infuse decimal_runtime (idle_pump [''00>'', ''T*'']))) = Some ''infusing''
   \<and> threads (snd (infuse decimal_runtime (idle_pump [''00>'', ''T*'']))) = []
   \<and> incoming (serialcon (snd (infuse decimal_runtime (idle_pump [''00>'', ''T*'']))))
       = [''T*'']
   \<and> map_option (\<lambda>(r, p). (r, state p))
        (waituntilfinished decimal_runtime
           (snd (infuse decimal_runtime (idle_pump [''00>'', ''T*''])))) =
       Some (Some ''finished'', Some ''idle'')"
  apply (subst waituntilfinished.simps)
  apply (simp add: infuse_def eval_defs)
  done

text \<open>
  C9: the diameter is rounded to two decimals, not truncated. For the diameter 0.1875 the
  frame on the wire is \<open>00diameter 0.19\<close> with its carriage return; truncation would give
  \<open>0.18\<close>.
\<close>

theorem setdiameter_rounds:
  "fmt_2_2f 0.1875 = ''0.19''
   \<and> fst (setdiameter decimal_runtime 0.1875 (idle_pump [''00:'', ''00:0.1900 mm''])) = Inr ()
   \<and> written (serialcon (snd (setdiameter decimal_runtime 0.1875
        (idle_pump [''00:'', ''00:0.1900 mm''])))) =
       [''00diameter 0.19'' @ [CHR 0x0D], ''00diameter'' @ [CHR 0x0D]]"
  by (simp add: setdiameter_def eval_defs)

text \<open>
  C10, as stated, fails: the connection yields one byte, FF, and \<open>read\<close> returns no text: the
  byte does not decode and \<open>read\<close> raises the UnicodeDecodeError.
\<close>

theorem read_undecodable_counterexample:
  "fst (serial_read 5 (serialcon (idle_pump [[CHR 0xFF]]))) = [CHR 0xFF]
   \<and> fst (read decimal_runtime 5 (idle_pump [[CHR 0xFF]])) = Inl UnicodeDecodeError"
  by (simp add: read_def serial_read_def idle_pump_def decimal_runtime_def decode_ascii_def)

text \<open>
  C10, amended: when the connection yields at least one byte and the bytes decode, \<open>read\<close>
  returns the decoded text without its line feeds; when they do not decode it raises the
  UnicodeDecodeError; and when the connection yields no byte it returns Python's \<open>None\<close>, no
  string. A caller then works on \<open>None\<close>: on an idle pump whose connection stays silent,
  \<open>infuse\<close> and \<open>setwithdrawrate\<close> end in the TypeError of searching or indexing \<open>None\<close>.
\<close>

theorem read_result:
  "(fst (serial_read n (serialcon p)) \<noteq> []
      \<and> decode rt (fst (serial_read n (serialcon p))) = Some text \<longrightarrow>
      fst (read rt n p) = Inr (Some (filter (\<lambda>c. c \<noteq> CHR 0x0A) text)))
   \<and> (fst (serial_read n (serialcon p)) \<noteq> []
      \<and> decode rt (fst (serial_read n (serialcon p))) = None \<longrightarrow>
      fst (read rt n p) = Inl UnicodeDecodeError)
   \<and> (fst (serial_read n (serialcon p)) = [] \<longrightarrow> fst (read rt n p) = Inr None)
   \<and> (state p = Some ''idle'' \<and> incoming (serialcon p) = [] \<longrightarrow>
        fst (infuse rt p) = Inl TypeError \<and> fst (setwithdrawrate rt f u p) = Inl TypeError)"
  by (simp add: read_def infuse_def setwithdrawrate_def write_def serial_read_def Let_def
      split: prod.splits list.splits)

theorem read_result_witness:
  "fst (serial_read 5 (serialcon (idle_pump [''00:'' @ [CHR 0x0A]]))) = ''00:'' @ [CHR 0x0A]
   \<and> decode decimal_runtime (''00:'' @ [CHR 0x0A]) = Some (''00:'' @ [CHR 0x0A])
   \<and> fst (read decimal_runtime 5 (idle_pump [''00:'' @ [CHR 0x0A]])) = Inr (Some ''00:'')
   \<and> decode decimal_runtime [CHR 0xFF] = None
   \<and> fst (read decimal_runtime 5 (idle_pump [[CHR 0xFF]])) = Inl UnicodeDecodeError
   \<and> fst (serial_read 5 (serialcon (idle_pump []))) = []
   \<and> fst (read decimal_runtime 5 (idle_pump [])) = Inr None
   \<and> fst (infuse decimal_runtime (idle_pump [])) = Inl TypeError"
  using read_result [of 5 "idle_pump [''00:'' @ [CHR 0x0A]]" decimal_runtime
      "''00:'' @ [CHR 0x0A]"]
    read_result [of 5 "idle_pump [[CHR 0xFF]]" decimal_runtime]
    read_result [of 5 "idle_pump []" decimal_runtime _ 1 "''u/m''"]
  by (simp add: idle_pump_def serial_read_def decimal_runtime_def decode_ascii_def)

end
